theory Spec2Isabelle
  imports Main "HOL-Library.Word" "HOL-Library.Multiset" "HOL-Library.Monad_Syntax"
begin

section \<open>Common values: errors and outcomes\<close>

text \<open>
  A Go \<open>error\<close> value. The cluster API answers with a status error that carries a
  reason; \<open>errors.New\<close> and \<open>fmt.Errorf\<close> build an error from a message. A nil
  error is \<open>None\<close> of \<open>error option\<close>.
\<close>

datatype status_reason = NotFound | AlreadyExists | Forbidden | ServiceUnavailable

datatype error = StatusError status_reason | ErrorString string | PathError string string string

text \<open>
  How a call of a command method ends: it returns, or \<open>log.Fatalf\<close> ends the process
  with a message, or the Go runtime panics (\<open>log.Panicf\<close>, a nil pointer dereference).
\<close>

datatype 'a outcome = Returned 'a | Fatal string | Panic string

text \<open>Reading through a pointer of the configuration: nil panics.\<close>

definition deref :: "'a option \<Rightarrow> ('a \<Rightarrow> 'b outcome) \<Rightarrow> 'b outcome" where
  "deref p k = (case p of None \<Rightarrow> Panic ''nil pointer dereference'' | Some v \<Rightarrow> k v)"

section \<open>cmd/up.go: ensureNamespace\<close>

record Namespace =
  ns_Name :: string

text \<open>
  \<open>ensureNamespace\<close> reads the release namespace from the configuration (a pointer),
  asks the cluster for it and, when the lookup fails, creates it. The two cluster calls
  \<open>Namespaces().Get\<close> and \<open>Namespaces().Create\<close> are parameters: each answers with
  an error or the namespace.
\<close>

definition ensureNamespace ::
  "(string \<Rightarrow> error + Namespace) \<Rightarrow> (Namespace \<Rightarrow> error + Namespace) \<Rightarrow> string option
     \<Rightarrow> error option outcome" where
  "ensureNamespace nsGet nsCreate cfgNamespace =
     deref cfgNamespace (\<lambda>releaseNamespace.
       case nsGet releaseNamespace of
         Inr _ \<Rightarrow> Returned None
       | Inl _ \<Rightarrow>
           (case nsCreate \<lparr>ns_Name = releaseNamespace\<rparr> of
              Inl err \<Rightarrow> Returned (Some err)
            | Inr _ \<Rightarrow> Returned None))"

section \<open>Decimal rendering of integers\<close>

text \<open>
  \<open>strconv.Itoa\<close> and the verb \<open>%d\<close> of \<open>fmt.Sprintf\<close>: the decimal digits of
  the value, with a leading minus sign when it is negative.
\<close>

definition digit_char :: "int \<Rightarrow> char" where
  "digit_char d = char_of (48 + d)"

function decimal :: "int \<Rightarrow> string" where
  "decimal n = (if n < 10 then [digit_char n] else decimal (n div 10) @ [digit_char (n mod 10)])"
  by pat_completeness auto
termination
  by (relation "measure nat") auto

declare decimal.simps [simp del]

definition Itoa :: "int \<Rightarrow> string" where
  "Itoa i = (if i < 0 then CHR ''-'' # decimal (- i) else decimal i)"

section \<open>Pods\<close>

text \<open>
  A \<open>time.Time\<close>: an instant, counted in seconds and nanoseconds from
  January 1 of year 1, 00:00:00 UTC (the zero value of the type), and the offset in
  seconds east of UTC of the location the value is shown in.
\<close>

record Time =
  t_sec :: int
  t_nsec :: int
  t_offset :: int

text \<open>
  The parts of \<open>k8sv1.Pod\<close> that the code reads. \<open>ExitCode\<close> and \<open>Signal\<close> are
  \<open>int32\<close>. A Go map is an association list, read with \<open>map_of\<close>.
\<close>

type_synonym int32 = "32 word"

record ContainerStateWaiting =
  w_Reason :: string

record ContainerStateTerminated =
  ExitCode :: int32
  Signal :: int32
  t_Reason :: string

record ContainerState =
  Waiting :: "ContainerStateWaiting option"
  Running :: "unit option"
  Terminated :: "ContainerStateTerminated option"

record ContainerStatus =
  State :: ContainerState
  Ready :: bool

record Container =
  c_Name :: string

record PodStatus =
  Phase :: string
  Reason :: string
  InitContainerStatuses :: "ContainerStatus list"
  ContainerStatuses :: "ContainerStatus list"

record Pod =
  Name :: string
  Namespace :: string
  Annotations :: "(string \<times> string) list"
  DeletionTimestamp :: "Time option"
  InitContainers :: "Container list"
  Containers :: "Container list"
  Status :: PodStatus

section \<open>pkg/devspace/clients/kubectl/client.go: GetPodStatus\<close>

text \<open>The constant \<open>node.NodeUnreachablePodReason\<close> of the Kubernetes node utilities.\<close>

definition NodeUnreachablePodReason :: string where
  "NodeUnreachablePodReason = ''NodeLost''"

text \<open>
  The loop over the init container statuses. The \<open>switch\<close> continues with the next
  status after a container that terminated with exit code 0; every other case sets the
  reason, marks the pod as initializing and leaves the loop through the \<open>break\<close> that
  follows the \<open>switch\<close>. \<open>i\<close> is the index of the status, \<open>n\<close> the number of init
  containers of the pod's spec.
\<close>

fun initContainerLoop ::
  "nat \<Rightarrow> nat \<Rightarrow> ContainerStatus list \<Rightarrow> string \<times> bool \<Rightarrow> string \<times> bool" where
  "initContainerLoop i n [] acc = acc"
| "initContainerLoop i n (container # rest) acc =
     (case Terminated (State container) of
        Some term \<Rightarrow>
          if ExitCode term = 0 then initContainerLoop (i + 1) n rest acc
          else if length (t_Reason term) = 0 then
            (if Signal term \<noteq> 0 then (''Init:Signal:'' @ Itoa (sint (Signal term)), True)
             else (''Init:ExitCode:'' @ Itoa (sint (ExitCode term)), True))
          else (''Init:'' @ t_Reason term, True)
      | None \<Rightarrow>
          (case Waiting (State container) of
             Some wait \<Rightarrow>
               if length (w_Reason wait) > 0 \<and> w_Reason wait \<noteq> ''PodInitializing''
               then (''Init:'' @ w_Reason wait, True)
               else (''Init:'' @ Itoa (int i) @ ''/'' @ Itoa (int n), True)
           | None \<Rightarrow> (''Init:'' @ Itoa (int i) @ ''/'' @ Itoa (int n), True)))"

text \<open>
  One round of the loop over the container statuses, on the pair of \<open>reason\<close> and
  \<open>hasRunning\<close>: the chain of \<open>if\<close> and \<open>else if\<close> of the source, in its order.
\<close>

definition waitingWithReason :: "ContainerStatus \<Rightarrow> string option" where
  "waitingWithReason container =
     (case Waiting (State container) of
        Some wait \<Rightarrow> if w_Reason wait \<noteq> [] then Some (w_Reason wait) else None
      | None \<Rightarrow> None)"

definition containerStep :: "ContainerStatus \<Rightarrow> string \<times> bool \<Rightarrow> string \<times> bool" where
  "containerStep container acc =
     (case waitingWithReason container of
        Some r \<Rightarrow> (r, snd acc)
      | None \<Rightarrow>
          (case Terminated (State container) of
             Some term \<Rightarrow>
               if t_Reason term \<noteq> [] then (t_Reason term, snd acc)
               else if Signal term \<noteq> 0 then (''Signal:'' @ Itoa (sint (Signal term)), snd acc)
               else (''ExitCode:'' @ Itoa (sint (ExitCode term)), snd acc)
           | None \<Rightarrow>
               if Ready container \<and> Running (State container) \<noteq> None then (fst acc, True)
               else acc))"

text \<open>The loop runs from the last container status down to the first.\<close>

definition containerLoop :: "ContainerStatus list \<Rightarrow> string \<times> bool \<Rightarrow> string \<times> bool" where
  "containerLoop statuses acc = fold containerStep (rev statuses) acc"

definition GetPodStatus :: "Pod \<Rightarrow> string" where
  "GetPodStatus pod =
     (let reason = Phase (Status pod);
          reason = (if Reason (Status pod) \<noteq> [] then Reason (Status pod) else reason);
          (reason, initializing) =
             initContainerLoop 0 (length (InitContainers pod))
               (InitContainerStatuses (Status pod)) (reason, False);
          reason =
            (if \<not> initializing then
               (let (reason, hasRunning) =
                      containerLoop (ContainerStatuses (Status pod)) (reason, False)
                in if reason = ''Completed'' \<and> hasRunning then ''Running'' else reason)
             else reason)
      in if DeletionTimestamp pod \<noteq> None \<and> Reason (Status pod) = NodeUnreachablePodReason
         then ''Unknown''
         else if DeletionTimestamp pod \<noteq> None then ''Terminating''
         else reason)"

section \<open>cmd/up.go: waitForPodReady\<close>

text \<open>
  A \<open>time.Duration\<close> is an \<open>int64\<close> count of nanoseconds: subtraction wraps around
  and the loop condition \<open>maxWaitTime > 0\<close> is a signed comparison.
\<close>

type_synonym Duration = "64 word"

definition Second :: Duration where
  "Second = 1000000000"

text \<open>
  The cluster call \<open>Pods(namespace).Get(name)\<close> is a parameter. The pod may change or
  disappear between two polls, so the answer depends on the number of the poll (counted
  from 0) as well as on the namespace and the name asked for.

  The loop may run forever (a check interval of 0 against a pod that never becomes
  ready), so it is a partial function: \<open>None\<close> stands for a call that does not return.
  A call that returns gives the returned error (\<open>None\<close> for nil) and the number of
  polls made so far; \<open>polls\<close> counts the \<open>Get\<close> calls already made. The pod asked
  for is always the pod passed to the function: the \<open>pod\<close> declared inside the loop
  is a new variable of the loop body.
\<close>

partial_function (option) waitLoop ::
  "(nat \<Rightarrow> string \<Rightarrow> string \<Rightarrow> error + Pod) \<Rightarrow> Pod \<Rightarrow> Duration \<Rightarrow> Duration \<Rightarrow> nat
     \<Rightarrow> (error option \<times> nat) option" where
  "waitLoop podGet pod maxWaitTime checkInterval polls =
     (if 0 <s maxWaitTime then
        (case podGet polls (Namespace pod) (Name pod) of
           Inl err \<Rightarrow> Some (Some err, polls + 1)
         | Inr fetched \<Rightarrow>
             if length (ContainerStatuses (Status fetched)) > 0
                \<and> Ready (ContainerStatuses (Status fetched) ! 0)
             then Some (None, polls + 1)
             else waitLoop podGet pod (maxWaitTime - checkInterval) checkInterval (polls + 1))
      else Some (Some (ErrorString ''Max wait time expired''), polls))"

definition waitForPodReady ::
  "(nat \<Rightarrow> string \<Rightarrow> string \<Rightarrow> error + Pod) \<Rightarrow> Pod \<Rightarrow> Duration \<Rightarrow> Duration
     \<Rightarrow> (error option \<times> nat) option" where
  "waitForPodReady podGet pod maxWaitTime checkInterval =
     waitLoop podGet pod maxWaitTime checkInterval 0"

text \<open>The test of the loop body: the first container status of the pod reports ready.\<close>

definition primaryReady :: "Pod \<Rightarrow> bool" where
  "primaryReady p =
     (length (ContainerStatuses (Status p)) > 0 \<and> Ready (ContainerStatuses (Status p) ! 0))"

section \<open>strconv.Atoi\<close>

text \<open>
  \<open>strconv.Atoi\<close> where \<open>int\<close> has 64 bits: an optional sign followed by one or
  more decimal digits. A string of any other form gives 0 and a syntax error; a value
  outside the range of \<open>int\<close> gives the nearest bound and a range error.
\<close>

definition is_digit :: "char \<Rightarrow> bool" where
  "is_digit c = (48 \<le> (of_char c :: nat) \<and> (of_char c :: nat) \<le> 57)"

definition digits_value :: "string \<Rightarrow> int" where
  "digits_value ds = foldl (\<lambda>n c. n * 10 + (of_char c - 48)) 0 ds"

definition Atoi :: "string \<Rightarrow> int \<times> error option" where
  "Atoi s =
     (let (neg, ds) =
            (case s of
               [] \<Rightarrow> (False, [])
             | c # cs \<Rightarrow>
                 if c = CHR ''-'' then (True, cs)
                 else if c = CHR ''+'' then (False, cs)
                 else (False, s))
      in if ds = [] \<or> \<not> list_all is_digit ds then (0, Some (ErrorString ''invalid syntax''))
         else
           (let n = digits_value ds in
            if \<not> neg \<and> n \<ge> 2 ^ 63 then (2 ^ 63 - 1, Some (ErrorString ''value out of range''))
            else if neg \<and> n > 2 ^ 63 then (- (2 ^ 63), Some (ErrorString ''value out of range''))
            else (if neg then - n else n, None)))"

section \<open>cmd/up.go: deployChart, the choice of the release pod\<close>

text \<open>
  After the chart is installed, \<open>deployChart\<close> lists the pods of the release every two
  seconds. Over a list that is not empty it runs the loop below, which starts from
  \<open>highestRevision = 0\<close> and the zero value of \<open>selectedPod\<close>.

  \<open>pod.Annotations["revision"]\<close> gives the empty string and \<open>false\<close> for a pod
  without the annotation. The errors of \<open>strconv.Atoi\<close> are dropped by the code.
\<close>

definition zeroPod :: Pod where
  "zeroPod = \<lparr>Name = [], Namespace = [], Annotations = [], DeletionTimestamp = None,
     InitContainers = [], Containers = [],
     Status = \<lparr>Phase = [], Reason = [], InitContainerStatuses = [], ContainerStatuses = []\<rparr>\<rparr>"

definition revisionAnnotation :: "Pod \<Rightarrow> string \<times> bool" where
  "revisionAnnotation pod =
     (case map_of (Annotations pod) ''revision'' of
        Some v \<Rightarrow> (v, True)
      | None \<Rightarrow> ([], False))"

definition selectStep :: "nat \<Rightarrow> Pod \<Rightarrow> int \<times> Pod \<Rightarrow> int \<times> Pod" where
  "selectStep i pod st =
     (let highestRevision = fst st;
          (podRevision, podHasRevision) = revisionAnnotation pod;
          hasHigherRevision = (i = 0);
          hasHigherRevision =
            (if \<not> hasHigherRevision \<and> podHasRevision then
               (let podRevisionInt = fst (Atoi podRevision)
                in if podRevisionInt > highestRevision then True else hasHigherRevision)
             else hasHigherRevision)
      in if hasHigherRevision then (fst (Atoi podRevision), pod) else st)"

fun selectLoop :: "nat \<Rightarrow> Pod list \<Rightarrow> int \<times> Pod \<Rightarrow> int \<times> Pod" where
  "selectLoop i [] st = st"
| "selectLoop i (pod # rest) st = selectLoop (i + 1) rest (selectStep i pod st)"

definition selectPod :: "Pod list \<Rightarrow> int \<times> Pod" where
  "selectPod items = selectLoop 0 items (0, zeroPod)"

text \<open>
  What one round of the polling loop decides, given the listed pods and the revision of
  the release: the pod to wait for (and whether the warning about a missing revision was
  logged), or to poll again after the logged message.
\<close>

datatype poll_result = Accepted Pod bool | PollAgain string

definition pollReleasePods :: "Pod list \<Rightarrow> int \<Rightarrow> poll_result" where
  "pollReleasePods items releaseRevision =
     (if length items > 0 then
        (let (highestRevision, selectedPod) = selectPod items;
             hasRevision = snd (revisionAnnotation selectedPod)
         in if \<not> hasRevision \<or> highestRevision = releaseRevision
            then Accepted selectedPod (\<not> hasRevision)
            else PollAgain ''Waiting for release upgrade to complete.'')
      else PollAgain ''Waiting for release to be deployed.'')"

section \<open>The time package: instants, comparison, RFC 3339 text\<close>

text \<open>
  The zero value of \<open>time.Time\<close> and \<open>Time.Equal\<close>, which compares the instants
  and not the locations.
\<close>

definition zeroTime :: Time where
  "zeroTime = \<lparr>t_sec = 0, t_nsec = 0, t_offset = 0\<rparr>"

definition Equal :: "Time \<Rightarrow> Time \<Rightarrow> bool" where
  "Equal t u = (t_sec t = t_sec u \<and> t_nsec t = t_nsec u)"

text \<open>
  \<open>Time.Format(time.RFC3339Nano)\<close>, layout \<open>2006-01-02T15:04:05.999999999Z07:00\<close>:
  the date and the clock of the instant in its location, the nanoseconds without their
  trailing zeros (nothing when they are 0), and \<open>Z\<close> for the offset 0 or the offset in
  hours and minutes. Numbers are padded with zeros on the left to their width.
\<close>

definition appendInt :: "int \<Rightarrow> nat \<Rightarrow> string" where
  "appendInt x width =
     (let ds = decimal \<bar>x\<bar>
      in (if x < 0 then ''-'' else []) @ replicate (width - length ds) (CHR ''0'') @ ds)"

definition isLeap :: "int \<Rightarrow> bool" where
  "isLeap year = (year mod 4 = 0 \<and> (year mod 100 \<noteq> 0 \<or> year mod 400 = 0))"

definition daysBefore :: "int list" where
  "daysBefore = [0, 31, 59, 90, 120, 151, 181, 212, 243, 273, 304, 334, 365]"

text \<open>
  Year, month and day of month of a day counted from January 1 of year 1: 400-year,
  100-year and 4-year cycles are cut off, then whole years; the month is estimated as
  if every month had 31 days and corrected by the table.
\<close>

definition absDate :: "int \<Rightarrow> int \<times> int \<times> int" where
  "absDate days =
     (let n400 = days div 146097;
          d = days mod 146097;
          n100 = d div 36524;
          n100 = n100 - n100 div 4;
          d = d - 36524 * n100;
          n4 = d div 1461;
          d = d - 1461 * n4;
          n = d div 365;
          n = n - n div 4;
          d = d - 365 * n;
          year = 400 * n400 + 100 * n100 + 4 * n4 + n + 1
      in if isLeap year \<and> d = 59 then (year, 2, 29)
         else
           (let day = (if isLeap year \<and> d > 59 then d - 1 else d);
                month = day div 31;
                end = daysBefore ! nat (month + 1);
                (month, begin) =
                   (if day \<ge> end then (month + 1, end) else (month, daysBefore ! nat month))
            in (year, month + 1, day - begin + 1)))"

definition formatNano :: "int \<Rightarrow> string" where
  "formatNano nanosec =
     (let buf = appendInt nanosec 9;
          kept = rev (dropWhile (\<lambda>c. c = CHR ''0'') (rev buf))
      in if kept = [] then [] else CHR ''.'' # kept)"

definition formatZone :: "int \<Rightarrow> string" where
  "formatZone offset =
     (if offset = 0 then ''Z''
      else
        (let zone = \<bar>offset\<bar> div 60
         in (if offset \<le> - 60 then ''-'' else ''+'')
            @ appendInt (zone div 60) 2 @ '':'' @ appendInt (zone mod 60) 2))"

definition FormatRFC3339Nano :: "Time \<Rightarrow> string" where
  "FormatRFC3339Nano t =
     (let local = t_sec t + t_offset t;
          (year, month, day) = absDate (local div 86400);
          clock = local mod 86400
      in appendInt year 4 @ ''-'' @ appendInt month 2 @ ''-'' @ appendInt day 2 @ ''T''
         @ appendInt (clock div 3600) 2 @ '':'' @ appendInt (clock mod 3600 div 60) 2 @ '':''
         @ appendInt (clock mod 60) 2 @ formatNano (t_nsec t) @ formatZone (t_offset t))"

text \<open>
  \<open>time.Parse(time.RFC3339Nano, value)\<close> on the texts that \<open>Format\<close> writes: four
  digits of year, two each of month, day, hour, minute and second, an optional fraction
  of one to nine digits, and \<open>Z\<close> or a signed offset in hours and minutes. Any other
  text gives the zero time and an error, as a failed \<open>time.Parse\<close> does.
\<close>

definition digitsPrefix :: "nat \<Rightarrow> string \<Rightarrow> (int \<times> string) option" where
  "digitsPrefix n s =
     (if n \<le> length s \<and> list_all is_digit (take n s)
      then Some (digits_value (take n s), drop n s) else None)"

definition expectChar :: "char \<Rightarrow> string \<Rightarrow> string option" where
  "expectChar c s = (case s of [] \<Rightarrow> None | x # rest \<Rightarrow> if x = c then Some rest else None)"

definition parseFraction :: "string \<Rightarrow> (int \<times> string) option" where
  "parseFraction s =
     (case s of
        [] \<Rightarrow> Some (0, s)
      | x # rest \<Rightarrow>
          if x \<noteq> CHR ''.'' then Some (0, s)
          else
            (let ds = takeWhile is_digit rest
             in if ds = [] \<or> length ds > 9 then None
                else Some (digits_value ds * 10 ^ (9 - length ds), dropWhile is_digit rest)))"

definition parseZone :: "string \<Rightarrow> int option" where
  "parseZone s =
     (if s = ''Z'' then Some 0
      else
        (case s of
           [] \<Rightarrow> None
         | sign # rest \<Rightarrow>
             if sign \<noteq> CHR ''+'' \<and> sign \<noteq> CHR ''-'' then None
             else do {
               (hh, rest) \<leftarrow> digitsPrefix 2 rest;
               rest \<leftarrow> expectChar (CHR '':'') rest;
               (mm, rest) \<leftarrow> digitsPrefix 2 rest;
               if rest \<noteq> [] \<or> hh \<ge> 24 \<or> mm \<ge> 60 then None
               else Some ((if sign = CHR ''-'' then - 1 else 1) * (hh * 3600 + mm * 60))
             }))"

definition daysIn :: "int \<Rightarrow> int \<Rightarrow> int" where
  "daysIn month year =
     (if month = 2 \<and> isLeap year then 29
      else daysBefore ! nat month - daysBefore ! nat (month - 1))"

definition daysSinceEpoch :: "int \<Rightarrow> int" where
  "daysSinceEpoch year =
     (let y = year - 1 in 365 * y + y div 4 - y div 100 + y div 400)"

definition parseTime :: "string \<Rightarrow> Time option" where
  "parseTime s = do {
     (year, s) \<leftarrow> digitsPrefix 4 s;
     s \<leftarrow> expectChar (CHR ''-'') s;
     (month, s) \<leftarrow> digitsPrefix 2 s;
     s \<leftarrow> expectChar (CHR ''-'') s;
     (day, s) \<leftarrow> digitsPrefix 2 s;
     s \<leftarrow> expectChar (CHR ''T'') s;
     (hour, s) \<leftarrow> digitsPrefix 2 s;
     s \<leftarrow> expectChar (CHR '':'') s;
     (minute, s) \<leftarrow> digitsPrefix 2 s;
     s \<leftarrow> expectChar (CHR '':'') s;
     (second, s) \<leftarrow> digitsPrefix 2 s;
     (nsec, s) \<leftarrow> parseFraction s;
     offset \<leftarrow> parseZone s;
     if month < 1 \<or> month > 12 \<or> day < 1 \<or> hour \<ge> 24 \<or> minute \<ge> 60 \<or> second \<ge> 60
     then None
     else if day > daysIn month year then None
     else
       (let days = daysSinceEpoch year + daysBefore ! nat (month - 1)
                   + (if isLeap year \<and> month \<ge> 3 then 1 else 0) + day - 1
        in Some \<lparr>t_sec = days * 86400 + hour * 3600 + minute * 60 + second - offset,
                  t_nsec = nsec, t_offset = offset\<rparr>)
   }"

definition ParseRFC3339Nano :: "string \<Rightarrow> Time \<times> error option" where
  "ParseRFC3339Nano s =
     (case parseTime s of
        Some t \<Rightarrow> (t, None)
      | None \<Rightarrow> (zeroTime, Some (ErrorString (''parsing time '' @ s))))"

section \<open>cmd/up.go: shouldRebuild\<close>

text \<open>
  The image configuration, as far as \<open>shouldRebuild\<close> and \<open>buildImages\<close> read it;
  the fields behind pointers are options. \<open>os.Stat\<close> answers with an error or with
  the file information, of which the modification time is read.
\<close>

record BuildConfig =
  ContextPath :: "string option"
  DockerfilePath :: "string option"
  LatestTimestamp :: "string option"

record ImageConfig =
  ic_Name :: "string option"
  Tag :: "string option"
  Build :: BuildConfig

record FileInfo =
  ModTime :: Time

text \<open>
  The text of an error, \<open>err.Error()\<close>, as it appears in log messages; a status error
  of the cluster is shown by its reason only.
\<close>

fun Error :: "error \<Rightarrow> string" where
  "Error (ErrorString s) = s"
| "Error (PathError op path msg) = op @ '' '' @ path @ '': '' @ msg"
| "Error (StatusError NotFound) = ''not found''"
| "Error (StatusError AlreadyExists) = ''already exists''"
| "Error (StatusError Forbidden) = ''forbidden''"
| "Error (StatusError ServiceUnavailable) = ''service unavailable''"

text \<open>
  \<open>shouldRebuild\<close> takes the library calls as parameters: \<open>Parse\<close> is
  \<open>time.Parse(time.RFC3339Nano, \<cdot>)\<close>, \<open>Format\<close> is \<open>Time.Format(time.RFC3339Nano)\<close>
  and \<open>Stat\<close> is \<open>os.Stat\<close>. It returns the decision together with the image
  configuration, whose stored timestamp it overwrites; \<open>log.Fatalf\<close> ends the run.

  \<open>dockerfileModTime\<close> is declared without a value, so it is the zero time unless the
  branch of the existing file assigns the modification time to it.
\<close>

definition shouldRebuild ::
  "(string \<Rightarrow> Time \<times> error option) \<Rightarrow> (Time \<Rightarrow> string) \<Rightarrow> (string \<Rightarrow> error + FileInfo)
     \<Rightarrow> ImageConfig \<Rightarrow> string \<Rightarrow> bool \<Rightarrow> (bool \<times> ImageConfig) outcome" where
  "shouldRebuild Parse Format Stat imageConf dockerfilePath buildFlagChanged =
     (let dockerfileModTime = zeroTime;
          mustRebuild = True;
          store = (\<lambda>mustRebuild dockerfileModTime.
            Returned (mustRebuild,
              imageConf\<lparr>Build := (Build imageConf)
                \<lparr>LatestTimestamp := Some (Format dockerfileModTime)\<rparr>\<rparr>))
      in case Stat dockerfilePath of
           Inl err \<Rightarrow>
             (if LatestTimestamp (Build imageConf) = None
              then Fatal (''Dockerfile missing: '' @ Error err)
              else store False dockerfileModTime)
         | Inr dockerfileInfo \<Rightarrow>
             (let dockerfileModTime = ModTime dockerfileInfo;
                  mustRebuild =
                    (if buildFlagChanged = False then
                       (case LatestTimestamp (Build imageConf) of
                          Some stored \<Rightarrow>
                            (let latestBuildTime = fst (Parse stored)
                             in (Equal latestBuildTime dockerfileModTime = False))
                        | None \<Rightarrow> mustRebuild)
                     else mustRebuild)
              in store mustRebuild dockerfileModTime))"

text \<open>
  What a call that returned gave back (nothing for a call that ended the run), and the
  modification time that \<open>os.Stat\<close> reports: a missing file has none.
\<close>

definition returned :: "'a outcome \<Rightarrow> 'a option" where
  "returned r = (case r of Returned v \<Rightarrow> Some v | Fatal _ \<Rightarrow> None | Panic _ \<Rightarrow> None)"

definition currentModTime :: "error + FileInfo \<Rightarrow> Time option" where
  "currentModTime st = (case st of Inl _ \<Rightarrow> None | Inr info \<Rightarrow> Some (ModTime info))"

definition storedTimestamp :: "(bool \<times> ImageConfig) outcome \<Rightarrow> string option" where
  "storedTimestamp r =
     (case returned r of None \<Rightarrow> None | Some (_, conf) \<Rightarrow> LatestTimestamp (Build conf))"

section \<open>cmd/up.go: Run, from the build to the session pod\<close>

record UpCmdFlags =
  flags_tiller :: bool
  flags_open :: string
  flags_initRegistries :: bool
  flags_build :: bool
  flags_shell :: string
  flags_sync :: bool
  flags_deploy :: bool
  flags_portforwarding :: bool
  flags_noSleep :: bool

text \<open>
  The part of \<open>Run\<close> between the registries and the port forwarding: it builds the
  images when building is enabled, asks for a running pod of the release, and then either
  deploys the chart or keeps the pod it found as \<open>cmd.pod\<close>.

  The three calls are parameters. \<open>buildImages\<close> returns whether an image was rebuilt,
  or ends the run. \<open>getRunningDevSpacePod\<close> (not among the sources) returns a pod and
  an error. \<open>deployChart\<close> sets \<open>cmd.pod\<close> to the pod it resolved, or ends the run,
  or polls without end (\<open>None\<close>). The model returns the calls made, in their order, and
  how this part ends: with the value of \<open>cmd.pod\<close>, with the end of the run, or not at
  all.
\<close>

datatype call = CallBuildImages bool | CallGetRunningDevSpacePod | CallDeployChart

definition Run_sessionPod ::
  "UpCmdFlags \<Rightarrow> bool \<Rightarrow> (bool \<Rightarrow> bool outcome) \<Rightarrow> Pod option \<times> error option
     \<Rightarrow> Pod outcome option \<Rightarrow> call list \<times> Pod option outcome option" where
  "Run_sessionPod flags buildFlagChanged buildImages getRunningDevSpacePod deployChart =
     (let mustRedeploy = Returned False;
          calls = [];
          (mustRedeploy, calls) =
             (if flags_build flags
              then (buildImages buildFlagChanged, calls @ [CallBuildImages buildFlagChanged])
              else (mustRedeploy, calls))
      in case mustRedeploy of
           Fatal msg \<Rightarrow> (calls, Some (Fatal msg))
         | Panic msg \<Rightarrow> (calls, Some (Panic msg))
         | Returned mustRedeploy \<Rightarrow>
             (let (pod, err) = getRunningDevSpacePod;
                  calls = calls @ [CallGetRunningDevSpacePod]
              in if err \<noteq> None \<or> mustRedeploy \<or> flags_deploy flags then
                   (calls @ [CallDeployChart],
                    case deployChart of
                      None \<Rightarrow> None
                    | Some (Returned selected) \<Rightarrow> Some (Returned (Some selected))
                    | Some (Fatal msg) \<Rightarrow> Some (Fatal msg)
                    | Some (Panic msg) \<Rightarrow> Some (Panic msg))
                 else (calls, Some (Returned pod))))"

section \<open>pkg/devspace/clients/kubectl/client.go: GetFirstRunningPod\<close>


section \<open>cmd/up.go: startPortForwarding\<close>











section \<open>pkg/devspace/clients/kubectl/client.go: GetClientConfig, Exec, ExecBuffered\<close>

text \<open>
  The cluster part of the configuration and the client configuration built from it.
  \<open>GetClientConfig\<close> fails when the configuration has no cluster part.
\<close>

record ClusterUser =
  Username :: string
  ClientCert :: string
  ClientKey :: string

record Cluster =
  APIServer :: string
  CaCert :: string
  User :: ClusterUser

record RestConfig =
  Host :: string
  rc_Username :: string
  CAData :: string
  CertData :: string
  KeyData :: string

definition GetClientConfig :: "Cluster option \<Rightarrow> error + RestConfig" where
  "GetClientConfig cluster =
     (case cluster of
        None \<Rightarrow> Inl (ErrorString ''Couldn't load cluster config, did you run devspace init'')
      | Some c \<Rightarrow>
          Inr \<lparr>Host = APIServer c, rc_Username = Username (User c), CAData = CaCert c,
               CertData = ClientCert (User c), KeyData = ClientKey (User c)\<rparr>)"

text \<open>
  The request that \<open>Exec\<close> builds, and the remote side of the stream: the bytes it
  writes to standard output and to standard error until the stream ends, and the error
  that \<open>exec.Stream\<close> returns then (\<open>None\<close> for nil). A stream that never ends is
  \<open>None\<close> of \<open>Remote option\<close>.
\<close>

record ExecRequest =
  req_Name :: string
  req_Namespace :: string
  req_Container :: string
  req_Command :: "string list"
  req_TTY :: bool

record Remote =
  r_stdout :: string
  r_stderr :: string
  r_err :: "error option"

text \<open>
  What the caller of \<open>Exec\<close> holds after a return without a terminal: the bytes that
  can be read from the two pipes before their end (\<open>None\<close> when the worker never
  closes the pipe), and the value that the worker has sent on the error channel. A Go
  channel is a number here and the nil channel is \<open>None\<close>: a send on the nil channel
  blocks forever, so nothing is ever delivered.
\<close>

record ExecSession =
  stdoutPipe :: "string option"
  stderrPipe :: "string option"
  delivered :: "(nat \<times> error option) option"

definition sendOn :: "nat option \<Rightarrow> error option \<Rightarrow> (nat \<times> error option) option" where
  "sendOn errorChannel streamErr =
     (case errorChannel of None \<Rightarrow> None | Some c \<Rightarrow> Some (c, streamErr))"

text \<open>
  The three shapes of what \<open>Exec\<close> returns: \<open>(nil, nil, nil, err)\<close> with an error,
  \<open>(nil, nil, nil, nil)\<close> after a terminal session, and the three pipes with a nil
  error.
\<close>

datatype exec_return = ExecFailed error | ExecTerminal | ExecPipes ExecSession

text \<open>
  \<open>Exec\<close>. \<open>newExecutor\<close> is \<open>remotecommand.NewSPDYExecutor\<close>, which may fail;
  \<open>isTerminalIn\<close> tells whether the local input is a terminal, which \<open>setupTTY\<close>
  asks. With a terminal the stream runs before \<open>Exec\<close> returns, so a stream that never
  ends keeps \<open>Exec\<close> from returning (\<open>None\<close>). Without one the worker started in the
  background runs the stream, closes the pipes when it ends and then sends the error of
  the stream on the error channel.
\<close>

definition Exec ::
  "Cluster option \<Rightarrow> (RestConfig \<Rightarrow> ExecRequest \<Rightarrow> error option) \<Rightarrow> bool \<Rightarrow> Remote option
     \<Rightarrow> Pod \<Rightarrow> string \<Rightarrow> string list \<Rightarrow> bool \<Rightarrow> nat option \<Rightarrow> exec_return option" where
  "Exec cluster newExecutor isTerminalIn remote pod container command tty errorChannel =
     (case GetClientConfig cluster of
        Inl err \<Rightarrow> Some (ExecFailed err)
      | Inr kubeconfig \<Rightarrow>
          (let raw = (if tty then isTerminalIn else False);
               execRequest =
                 \<lparr>req_Name = Name pod, req_Namespace = Namespace pod, req_Container = container,
                  req_Command = command, req_TTY = raw\<rparr>
           in case newExecutor kubeconfig execRequest of
                Some err \<Rightarrow> Some (ExecFailed err)
              | None \<Rightarrow>
                  if tty then
                    (case remote of
                       None \<Rightarrow> None
                     | Some r \<Rightarrow>
                         (case r_err r of
                            Some err \<Rightarrow> Some (ExecFailed err)
                          | None \<Rightarrow> Some ExecTerminal))
                  else
                    Some (ExecPipes
                      (case remote of
                         None \<Rightarrow> \<lparr>stdoutPipe = None, stderrPipe = None, delivered = None\<rparr>
                       | Some r \<Rightarrow>
                           \<lparr>stdoutPipe = Some (r_stdout r), stderrPipe = Some (r_stderr r),
                            delivered = sendOn errorChannel (r_err r)\<rparr>))))"

text \<open>
  \<open>ExecBuffered\<close> calls \<open>Exec\<close> without a terminal and with the nil channel. On an
  error it returns \<open>(nil, nil, execErr)\<close>. Otherwise it copies both pipes to their
  ends into two buffers and returns the buffers with a nil error; it does not return
  while a pipe stays open. The result is the two byte slices (nil is the empty slice) and
  the error.
\<close>

definition ExecBuffered ::
  "Cluster option \<Rightarrow> (RestConfig \<Rightarrow> ExecRequest \<Rightarrow> error option) \<Rightarrow> bool \<Rightarrow> Remote option
     \<Rightarrow> Pod \<Rightarrow> string \<Rightarrow> string list \<Rightarrow> (string \<times> string \<times> error option) outcome option" where
  "ExecBuffered cluster newExecutor isTerminalIn remote pod container command =
     (case Exec cluster newExecutor isTerminalIn remote pod container command False None of
        None \<Rightarrow> None
      | Some (ExecFailed execErr) \<Rightarrow> Some (Returned ([], [], Some execErr))
      | Some ExecTerminal \<Rightarrow> Some (Panic ''nil pointer dereference'')
      | Some (ExecPipes session) \<Rightarrow>
          (case (stdoutPipe session, stderrPipe session) of
             (Some stdoutBuffer, Some stderrBuffer) \<Rightarrow>
               Some (Returned (stdoutBuffer, stderrBuffer, None))
           | _ \<Rightarrow> None))"

section \<open>Sample pods\<close>

text \<open>Pods that the properties below are exercised on.\<close>

definition runningState :: ContainerState where
  "runningState = \<lparr>Waiting = None, Running = Some (), Terminated = None\<rparr>"

definition samplePod :: "string \<Rightarrow> (string \<times> string) list \<Rightarrow> Time option \<Rightarrow> PodStatus \<Rightarrow> Pod" where
  "samplePod name annotations deleted status =
     \<lparr>Name = name, Namespace = ''default'', Annotations = annotations,
      DeletionTimestamp = deleted, InitContainers = [], Containers = [\<lparr>c_Name = ''app''\<rparr>],
      Status = status\<rparr>"

definition startingPod :: Pod where
  "startingPod = samplePod ''web-1'' [] None
     \<lparr>Phase = ''Running'', Reason = [], InitContainerStatuses = [],
      ContainerStatuses = [\<lparr>State = runningState, Ready = False\<rparr>]\<rparr>"

definition readyPod :: Pod where
  "readyPod = samplePod ''web-1'' [] None
     \<lparr>Phase = ''Running'', Reason = [], InitContainerStatuses = [],
      ContainerStatuses = [\<lparr>State = runningState, Ready = True\<rparr>]\<rparr>"

definition revisionPod :: "string \<Rightarrow> string \<Rightarrow> Pod" where
  "revisionPod name revision = samplePod name [(''revision'', revision)] None (Status readyPod)"

section \<open>Sample build records, files, flags and configurations\<close>

text \<open>
  An image configuration with a given stored timestamp, a Dockerfile with a given
  modification time, and a missing Dockerfile.
\<close>

definition sampleConf :: "string option \<Rightarrow> ImageConfig" where
  "sampleConf stored =
     \<lparr>ic_Name = Some ''devspace'', Tag = None,
      Build = \<lparr>ContextPath = None, DockerfilePath = None, LatestTimestamp = stored\<rparr>\<rparr>"

definition statFile :: "Time \<Rightarrow> string \<Rightarrow> error + FileInfo" where
  "statFile t path = Inr \<lparr>ModTime = t\<rparr>"

definition statMissing :: "string \<Rightarrow> error + FileInfo" where
  "statMissing path = Inl (PathError ''stat'' path ''no such file or directory'')"

definition sampleFlags :: "bool \<Rightarrow> bool \<Rightarrow> UpCmdFlags" where
  "sampleFlags build deploy =
     \<lparr>flags_tiller = True, flags_open = ''cmd'', flags_initRegistries = True,
      flags_build = build, flags_shell = [], flags_sync = True, flags_deploy = deploy,
      flags_portforwarding = True, flags_noSleep = False\<rparr>"


definition sampleCluster :: Cluster where
  "sampleCluster =
     \<lparr>APIServer = ''https://10.0.0.1:8443'', CaCert = ''ca'',
      User = \<lparr>Username = ''dev'', ClientCert = ''cert'', ClientKey = ''key''\<rparr>\<rparr>"

section \<open>Properties of ensureNamespace\<close>

text \<open>
  C7, as the code has it: when the lookup of the namespace fails and the create call that
  follows fails too, \<open>ensureNamespace\<close> returns the error of the create call, whatever
  its reason; an "already exists" answer is returned like any other error.
\<close>

theorem ensureNamespace_returns_create_error:
  assumes "nsGet name = Inl getErr"
    and "nsCreate \<lparr>ns_Name = name\<rparr> = Inl createErr"
  shows "ensureNamespace nsGet nsCreate (Some name) = Returned (Some createErr)"
  using assms by (simp add: ensureNamespace_def deref_def)

theorem ensureNamespace_returns_create_error_witness:
  "ensureNamespace (\<lambda>_. Inl (StatusError NotFound)) (\<lambda>_. Inl (StatusError Forbidden))
     (Some ''staging'') = Returned (Some (StatusError Forbidden))"
  by (rule ensureNamespace_returns_create_error [where getErr = "StatusError NotFound"]) simp_all

text \<open>
  The creation race of C7: the lookup answers "not found", another client creates the
  namespace, and the create call answers "already exists". The result is that error, not
  success.
\<close>

theorem ensureNamespace_already_exists_counterexample:
  "ensureNamespace (\<lambda>_. Inl (StatusError NotFound)) (\<lambda>_. Inl (StatusError AlreadyExists))
     (Some ''devspace'') = Returned (Some (StatusError AlreadyExists))
   \<and> ensureNamespace (\<lambda>_. Inl (StatusError NotFound)) (\<lambda>_. Inl (StatusError AlreadyExists))
     (Some ''devspace'') \<noteq> Returned None"
  by (simp add: ensureNamespace_def deref_def)

section \<open>Properties of GetPodStatus\<close>

text \<open>
  C6: for every pod with a non-nil deletion timestamp, the derived status is "Unknown"
  when the status reason of the pod is the node-unreachable reason, and "Terminating"
  otherwise, whatever the phase, the init container statuses and the container statuses
  of the pod are.
\<close>

theorem GetPodStatus_deletion_overrides:
  assumes "DeletionTimestamp pod \<noteq> None"
  shows "GetPodStatus pod =
           (if Reason (Status pod) = NodeUnreachablePodReason then ''Unknown''
            else ''Terminating'')"
  using assms by (simp add: GetPodStatus_def Let_def split: prod.splits)

theorem GetPodStatus_deletion_overrides_witness:
  "GetPodStatus (samplePod ''web-0'' [] (Some \<lparr>t_sec = 63670000000, t_nsec = 0, t_offset = 0\<rparr>)
      \<lparr>Phase = ''Running'', Reason = ''NodeLost'', InitContainerStatuses = [],
       ContainerStatuses = []\<rparr>) = ''Unknown''
   \<and> GetPodStatus (samplePod ''web-0'' [] (Some \<lparr>t_sec = 63670000000, t_nsec = 0, t_offset = 0\<rparr>)
      \<lparr>Phase = ''Running'', Reason = [], InitContainerStatuses = [],
       ContainerStatuses = []\<rparr>) = ''Terminating''"
  using
    GetPodStatus_deletion_overrides [of "samplePod ''web-0'' [] (Some \<lparr>t_sec = 63670000000, t_nsec = 0, t_offset = 0\<rparr>)
      \<lparr>Phase = ''Running'', Reason = ''NodeLost'', InitContainerStatuses = [],
       ContainerStatuses = []\<rparr>"]
    GetPodStatus_deletion_overrides [of "samplePod ''web-0'' [] (Some \<lparr>t_sec = 63670000000, t_nsec = 0, t_offset = 0\<rparr>)
      \<lparr>Phase = ''Running'', Reason = [], InitContainerStatuses = [],
       ContainerStatuses = []\<rparr>"]
  by (simp add: samplePod_def NodeUnreachablePodReason_def)

section \<open>Properties of waitForPodReady\<close>

text \<open>
  As long as the remaining wait time is positive and the fetched pod is not ready, the
  loop goes on: after \<open>k\<close> such polls it stands at poll \<open>k\<close> with the wait time
  reduced \<open>k\<close> times.
\<close>

lemma waitLoop_not_ready_steps:
  assumes "\<forall>j<k. 0 <s mw - of_nat j * ci
             \<and> (\<exists>p. podGet (n + j) (Namespace pod) (Name pod) = Inr p \<and> \<not> primaryReady p)"
  shows "waitLoop podGet pod mw ci n = waitLoop podGet pod (mw - of_nat k * ci) ci (n + k)"
  using assms
proof (induction k arbitrary: mw n)
  case 0
  then show ?case by simp
next
  case (Suc k)
  from Suc.prems have budget: "0 <s mw"
    and "\<exists>p. podGet n (Namespace pod) (Name pod) = Inr p \<and> \<not> primaryReady p"
    by (auto dest: spec [of _ 0])
  then obtain p where p: "podGet n (Namespace pod) (Name pod) = Inr p" "\<not> primaryReady p"
    by blast
  have rest: "\<forall>j<k. 0 <s (mw - ci) - of_nat j * ci
                \<and> (\<exists>p. podGet (Suc n + j) (Namespace pod) (Name pod) = Inr p \<and> \<not> primaryReady p)"
  proof (intro allI impI)
    fix j assume "j < k"
    then have "Suc j < Suc k" by simp
    with Suc.prems have "0 <s mw - of_nat (Suc j) * ci
        \<and> (\<exists>p. podGet (n + Suc j) (Namespace pod) (Name pod) = Inr p \<and> \<not> primaryReady p)"
      by blast
    then show "0 <s (mw - ci) - of_nat j * ci
        \<and> (\<exists>p. podGet (Suc n + j) (Namespace pod) (Name pod) = Inr p \<and> \<not> primaryReady p)"
      by (simp add: algebra_simps)
  qed
  have "waitLoop podGet pod mw ci n = waitLoop podGet pod (mw - ci) ci (Suc n)"
    using budget p by (subst waitLoop.simps) (auto simp: primaryReady_def)
  also have "\<dots> = waitLoop podGet pod ((mw - ci) - of_nat k * ci) ci (Suc n + k)"
    by (rule Suc.IH [OF rest])
  finally show ?case by (simp add: algebra_simps)
qed

lemma waitLoop_error:
  assumes "0 <s mw" and "podGet n (Namespace pod) (Name pod) = Inl err"
  shows "waitLoop podGet pod mw ci n = Some (Some err, n + 1)"
  using assms by (subst waitLoop.simps) simp

lemma waitLoop_ready:
  assumes "0 <s mw" and "podGet n (Namespace pod) (Name pod) = Inr p" and "primaryReady p"
  shows "waitLoop podGet pod mw ci n = Some (None, n + 1)"
  using assms by (subst waitLoop.simps) (auto simp: primaryReady_def)

lemma waitLoop_expired:
  assumes "\<not> 0 <s mw"
  shows "waitLoop podGet pod mw ci n = Some (Some (ErrorString ''Max wait time expired''), n)"
  using assms by (subst waitLoop.simps) simp

text \<open>
  C5: every poll fetches the pod again. Let the first \<open>k\<close> polls happen (the wait time
  left is positive) and each fetch a pod whose first container status is not ready. Then
  \<^item> if poll \<open>k\<close> happens and the fetch fails, that error is returned at once, after
    \<open>k + 1\<close> polls;
  \<^item> if poll \<open>k\<close> happens and fetches a pod whose first container status is ready,
    nil is returned after \<open>k + 1\<close> polls;
  \<^item> if the wait time is used up after \<open>k\<close> polls, the timeout error is returned
    after exactly \<open>k\<close> polls.
  With a wait time of 10 seconds and a check interval of 5 seconds, a pod that is not
  ready at either poll gives the timeout error after exactly 2 polls.
\<close>

theorem waitForPodReady_polling:
  "((\<forall>j<k. 0 <s maxWaitTime - of_nat j * checkInterval
          \<and> (\<exists>p. podGet j (Namespace pod) (Name pod) = Inr p \<and> \<not> primaryReady p))
     \<longrightarrow> (0 <s maxWaitTime - of_nat k * checkInterval
            \<and> podGet k (Namespace pod) (Name pod) = Inl err
          \<longrightarrow> waitForPodReady podGet pod maxWaitTime checkInterval = Some (Some err, k + 1))
       \<and> (0 <s maxWaitTime - of_nat k * checkInterval
            \<and> podGet k (Namespace pod) (Name pod) = Inr ready \<and> primaryReady ready
          \<longrightarrow> waitForPodReady podGet pod maxWaitTime checkInterval = Some (None, k + 1))
       \<and> (\<not> 0 <s maxWaitTime - of_nat k * checkInterval
          \<longrightarrow> waitForPodReady podGet pod maxWaitTime checkInterval
                = Some (Some (ErrorString ''Max wait time expired''), k)))
   \<and> ((\<forall>j<2. \<exists>p. podGet j (Namespace pod) (Name pod) = Inr p \<and> \<not> primaryReady p)
     \<longrightarrow> waitForPodReady podGet pod (10 * Second) (5 * Second)
           = Some (Some (ErrorString ''Max wait time expired''), 2))"
proof (intro conjI impI)
  assume a: "\<forall>j<k. 0 <s maxWaitTime - of_nat j * checkInterval
          \<and> (\<exists>p. podGet j (Namespace pod) (Name pod) = Inr p \<and> \<not> primaryReady p)"
  have run: "waitForPodReady podGet pod maxWaitTime checkInterval
      = waitLoop podGet pod (maxWaitTime - of_nat k * checkInterval) checkInterval k"
    unfolding waitForPodReady_def
    using waitLoop_not_ready_steps [of k maxWaitTime checkInterval podGet 0 pod] a by simp
  {
    assume "0 <s maxWaitTime - of_nat k * checkInterval
            \<and> podGet k (Namespace pod) (Name pod) = Inl err"
    then show "waitForPodReady podGet pod maxWaitTime checkInterval = Some (Some err, k + 1)"
      by (simp add: run waitLoop_error)
  }
  {
    assume "0 <s maxWaitTime - of_nat k * checkInterval
            \<and> podGet k (Namespace pod) (Name pod) = Inr ready \<and> primaryReady ready"
    then show "waitForPodReady podGet pod maxWaitTime checkInterval = Some (None, k + 1)"
      by (simp add: run waitLoop_ready)
  }
  {
    assume "\<not> 0 <s maxWaitTime - of_nat k * checkInterval"
    then show "waitForPodReady podGet pod maxWaitTime checkInterval
                = Some (Some (ErrorString ''Max wait time expired''), k)"
      by (simp add: run waitLoop_expired)
  }
next
  assume a: "\<forall>j<2. \<exists>p. podGet j (Namespace pod) (Name pod) = Inr p \<and> \<not> primaryReady p"
  have "\<forall>j<2. 0 <s 10 * Second - of_nat j * (5 * Second)
          \<and> (\<exists>p. podGet (0 + j) (Namespace pod) (Name pod) = Inr p \<and> \<not> primaryReady p)"
  proof (intro allI impI)
    fix j :: nat assume "j < 2"
    then have "j = 0 \<or> j = 1" by auto
    with a show "0 <s 10 * Second - of_nat j * (5 * Second)
          \<and> (\<exists>p. podGet (0 + j) (Namespace pod) (Name pod) = Inr p \<and> \<not> primaryReady p)"
      by (auto simp: Second_def word_sless_alt)
  qed
  from waitLoop_not_ready_steps [of 2 "10 * Second" "5 * Second" podGet 0 pod, OF this]
  have "waitForPodReady podGet pod (10 * Second) (5 * Second)
      = waitLoop podGet pod (10 * Second - of_nat 2 * (5 * Second)) (5 * Second) 2"
    by (simp add: waitForPodReady_def numeral_2_eq_2)
  also have "\<dots> = Some (Some (ErrorString ''Max wait time expired''), 2)"
    by (rule waitLoop_expired) (simp add: Second_def word_sless_alt)
  finally show "waitForPodReady podGet pod (10 * Second) (5 * Second)
           = Some (Some (ErrorString ''Max wait time expired''), 2)" .
qed

theorem waitForPodReady_polling_witness:
  "waitForPodReady (\<lambda>j _ _. if j < 1 then Inr startingPod else Inl (StatusError NotFound))
      startingPod (10 * Second) (5 * Second) = Some (Some (StatusError NotFound), 2)
   \<and> waitForPodReady (\<lambda>j _ _. if j < 1 then Inr startingPod else Inr readyPod)
      startingPod (10 * Second) (5 * Second) = Some (None, 2)
   \<and> waitForPodReady (\<lambda>_ _ _. Inr startingPod)
      startingPod (10 * Second) (5 * Second) = Some (Some (ErrorString ''Max wait time expired''), 2)"
proof -
  have sless: "(0 :: Duration) <s 10 * Second" "(0 :: Duration) <s 10 * Second - 5 * Second"
    by (simp_all add: Second_def word_sless_alt)
  have nr: "\<not> primaryReady startingPod" and r: "primaryReady readyPod"
    by (simp_all add: primaryReady_def startingPod_def readyPod_def samplePod_def)
  show ?thesis
    using
      waitForPodReady_polling [of 1 "10 * Second" "5 * Second"
        "\<lambda>j _ _. if j < 1 then Inr startingPod else Inl (StatusError NotFound)" startingPod
        "StatusError NotFound" readyPod]
      waitForPodReady_polling [of 1 "10 * Second" "5 * Second"
        "\<lambda>j _ _. if j < 1 then Inr startingPod else Inr readyPod" startingPod
        "StatusError NotFound" readyPod]
      waitForPodReady_polling [of 2 "10 * Second" "5 * Second"
        "\<lambda>_ _ _. Inr startingPod" startingPod "StatusError NotFound" readyPod]
      sless nr r
    by simp
qed

section \<open>Properties of the choice of the release pod\<close>

lemma Atoi_7: "Atoi ''7'' = (7, None)"
  by (simp add: Atoi_def is_digit_def digits_value_def)

lemma Atoi_3: "Atoi ''3'' = (3, None)"
  by (simp add: Atoi_def is_digit_def digits_value_def)

text \<open>The loop over a list in two parts: the second part goes on where the first ended.\<close>

lemma selectLoop_append:
  "selectLoop i (xs @ ys) st = selectLoop (i + length xs) ys (selectLoop i xs st)"
  by (induction xs arbitrary: i st) simp_all

lemma selectPod_single:
  "selectPod [p] = (fst (Atoi (fst (revisionAnnotation p))), p)"
  by (simp add: selectPod_def selectStep_def Let_def split: prod.splits)

lemma selectPod_snoc:
  assumes "items \<noteq> []"
  shows "selectPod (items @ [q]) =
           (if snd (revisionAnnotation q)
               \<and> fst (Atoi (fst (revisionAnnotation q))) > fst (selectPod items)
            then (fst (Atoi (fst (revisionAnnotation q))), q)
            else selectPod items)"
  using assms
  by (simp add: selectPod_def selectLoop_append selectStep_def Let_def split: prod.splits)

lemma three_revisions:
  assumes "mset rs = {#a, b, b#}"
  shows "rs = [a, b, b] \<or> rs = [b, a, b] \<or> rs = [b, b, a]"
proof -
  from assms have "length rs = 3"
    by (metis size_mset size_add_mset size_empty numeral_3_eq_3)
  then obtain x y z where rs: "rs = [x, y, z]"
    by (auto simp: numeral_3_eq_3 length_Suc_conv)
  with assms show ?thesis
    by (auto simp: add_eq_conv_ex)
qed

lemma select_3_7_7:
  assumes "map_of (Annotations x) ''revision'' = Some ''3''"
    and "map_of (Annotations y) ''revision'' = Some ''7''"
    and "map_of (Annotations z) ''revision'' = Some ''7''"
  shows "selectPod [x, y, z] = (7, y)" and "selectPod [y, x, z] = (7, y)"
    and "selectPod [y, z, x] = (7, y)"
  using assms
  by (simp_all add: selectPod_def selectStep_def revisionAnnotation_def Atoi_7 Atoi_3)

text \<open>
  C1: on a poll over a list of pods that is not empty, the first pod is selected
  provisionally, with the integer of its revision annotation as the highest revision
  (0 when it has none or it is not a number). A later pod replaces the selection only if
  it has a revision annotation whose integer is strictly greater than the highest
  revision so far; an equal revision does not. For pods with the revision annotations
  3, 7 and 7 in any order, the highest revision is 7, the selected pod is the first pod
  of the list with revision 7, and with the release at revision 7 the poll accepts it.
\<close>

theorem deployChart_selects_highest_revision:
  "selectPod [p] = (fst (Atoi (fst (revisionAnnotation p))), p)
   \<and> (items \<noteq> [] \<longrightarrow>
        selectPod (items @ [q]) =
          (if snd (revisionAnnotation q)
              \<and> fst (Atoi (fst (revisionAnnotation q))) > fst (selectPod items)
           then (fst (Atoi (fst (revisionAnnotation q))), q)
           else selectPod items))
   \<and> (mset (map (\<lambda>p. map_of (Annotations p) ''revision'') pods)
          = {#Some ''3'', Some ''7'', Some ''7''#} \<longrightarrow>
        fst (selectPod pods) = 7
        \<and> find (\<lambda>p. map_of (Annotations p) ''revision'' = Some ''7'') pods
            = Some (snd (selectPod pods))
        \<and> pollReleasePods pods 7 = Accepted (snd (selectPod pods)) False)"
proof (intro conjI impI)
  show "selectPod [p] = (fst (Atoi (fst (revisionAnnotation p))), p)"
    by (rule selectPod_single)
next
  assume "items \<noteq> []"
  then show "selectPod (items @ [q]) =
          (if snd (revisionAnnotation q)
              \<and> fst (Atoi (fst (revisionAnnotation q))) > fst (selectPod items)
           then (fst (Atoi (fst (revisionAnnotation q))), q)
           else selectPod items)"
    by (rule selectPod_snoc)
next
  let ?rev = "\<lambda>p. map_of (Annotations p) ''revision''"
  assume "mset (map ?rev pods) = {#Some ''3'', Some ''7'', Some ''7''#}"
  then have "map ?rev pods = [Some ''3'', Some ''7'', Some ''7'']
           \<or> map ?rev pods = [Some ''7'', Some ''3'', Some ''7'']
           \<or> map ?rev pods = [Some ''7'', Some ''7'', Some ''3'']"
    by (rule three_revisions)
  then have sel: "fst (selectPod pods) = 7 \<and> find (\<lambda>p. ?rev p = Some ''7'') pods = Some (snd (selectPod pods))"
    by (auto simp: map_eq_Cons_conv select_3_7_7)
  then show "fst (selectPod pods) = 7"
    and found: "find (\<lambda>p. ?rev p = Some ''7'') pods = Some (snd (selectPod pods))"
    by simp_all
  from found have "?rev (snd (selectPod pods)) = Some ''7''"
    by (auto simp: find_Some_iff)
  moreover from found have "pods \<noteq> []" by auto
  ultimately show "pollReleasePods pods 7 = Accepted (snd (selectPod pods)) False"
    using sel by (auto simp: pollReleasePods_def revisionAnnotation_def Let_def split: prod.splits)
qed

theorem deployChart_selects_highest_revision_witness:
  "selectPod [revisionPod ''old'' ''3'', revisionPod ''new-a'' ''7'', revisionPod ''new-b'' ''7'']
     = (7, revisionPod ''new-a'' ''7'')
   \<and> selectPod [revisionPod ''new-b'' ''7'', revisionPod ''old'' ''3'', revisionPod ''new-a'' ''7'']
     = (7, revisionPod ''new-b'' ''7'')
   \<and> pollReleasePods
       [revisionPod ''new-b'' ''7'', revisionPod ''new-a'' ''7'', revisionPod ''old'' ''3''] 7
     = Accepted (revisionPod ''new-b'' ''7'') False"
proof -
  note third = deployChart_selects_highest_revision [THEN conjunct2, THEN conjunct2, THEN mp]
  have rev: "map_of (Annotations (revisionPod n r)) ''revision'' = Some r" for n r
    by (simp add: revisionPod_def samplePod_def)
  have "fst (selectPod [revisionPod ''old'' ''3'', revisionPod ''new-a'' ''7'', revisionPod ''new-b'' ''7'']) = 7
      \<and> snd (selectPod [revisionPod ''old'' ''3'', revisionPod ''new-a'' ''7'', revisionPod ''new-b'' ''7''])
          = revisionPod ''new-a'' ''7''"
    using third [of "[revisionPod ''old'' ''3'', revisionPod ''new-a'' ''7'', revisionPod ''new-b'' ''7'']"]
    by (simp add: rev)
  moreover have "fst (selectPod [revisionPod ''new-b'' ''7'', revisionPod ''old'' ''3'', revisionPod ''new-a'' ''7'']) = 7
      \<and> snd (selectPod [revisionPod ''new-b'' ''7'', revisionPod ''old'' ''3'', revisionPod ''new-a'' ''7''])
          = revisionPod ''new-b'' ''7''"
    using third [of "[revisionPod ''new-b'' ''7'', revisionPod ''old'' ''3'', revisionPod ''new-a'' ''7'']"]
    by (simp add: rev)
  moreover have "pollReleasePods
       [revisionPod ''new-b'' ''7'', revisionPod ''new-a'' ''7'', revisionPod ''old'' ''3''] 7
     = Accepted (revisionPod ''new-b'' ''7'') False"
    using third [of "[revisionPod ''new-b'' ''7'', revisionPod ''new-a'' ''7'', revisionPod ''old'' ''3'']"]
    by (simp add: rev)
  ultimately show ?thesis
    by (simp add: prod_eq_iff)
qed

section \<open>Properties of shouldRebuild\<close>

text \<open>
  C3: for a Dockerfile that exists, \<open>shouldRebuild\<close> returns, and it returns true
  when the build flag was set explicitly or no timestamp is stored. When the flag was
  not set explicitly and a timestamp is stored, it returns true if and only if the
  modification time of the file and the parsed stored timestamp are different instants:
  they differ in the seconds or in the nanoseconds. An older file counts as changed
  like a newer one.
\<close>

theorem shouldRebuild_existing_file:
  assumes "Stat dockerfilePath = Inr info"
  shows "(buildFlagChanged \<or> LatestTimestamp (Build imageConf) = None \<longrightarrow>
            map_option fst
              (returned (shouldRebuild Parse Format Stat imageConf dockerfilePath buildFlagChanged))
            = Some True)
       \<and> (\<not> buildFlagChanged \<and> LatestTimestamp (Build imageConf) = Some stored \<longrightarrow>
            map_option fst
              (returned (shouldRebuild Parse Format Stat imageConf dockerfilePath buildFlagChanged))
            = Some (t_sec (fst (Parse stored)) \<noteq> t_sec (ModTime info)
                    \<or> t_nsec (fst (Parse stored)) \<noteq> t_nsec (ModTime info)))"
  using assms
  by (auto simp: shouldRebuild_def returned_def Equal_def Let_def split: option.splits)

lemma parse_sample:
  "ParseRFC3339Nano ''2018-08-20T11:15:30.5+02:00''
     = (\<lparr>t_sec = 63670353330, t_nsec = 500000000, t_offset = 7200\<rparr>, None)"
  by code_simp

theorem shouldRebuild_existing_file_witness:
  "map_option fst (returned (shouldRebuild ParseRFC3339Nano FormatRFC3339Nano
       (statFile \<lparr>t_sec = 63670353330, t_nsec = 500000000, t_offset = 7200\<rparr>)
       (sampleConf (Some ''2018-08-20T11:15:30.5+02:00'')) ''/work/Dockerfile'' False))
     = Some False
   \<and> map_option fst (returned (shouldRebuild ParseRFC3339Nano FormatRFC3339Nano
       (statFile \<lparr>t_sec = 63670353330, t_nsec = 500000001, t_offset = 7200\<rparr>)
       (sampleConf (Some ''2018-08-20T11:15:30.5+02:00'')) ''/work/Dockerfile'' False))
     = Some True
   \<and> map_option fst (returned (shouldRebuild ParseRFC3339Nano FormatRFC3339Nano
       (statFile \<lparr>t_sec = 63670353329, t_nsec = 500000000, t_offset = 7200\<rparr>)
       (sampleConf (Some ''2018-08-20T11:15:30.5+02:00'')) ''/work/Dockerfile'' False))
     = Some True
   \<and> map_option fst (returned (shouldRebuild ParseRFC3339Nano FormatRFC3339Nano
       (statFile \<lparr>t_sec = 63670353330, t_nsec = 500000000, t_offset = 7200\<rparr>)
       (sampleConf (Some ''2018-08-20T11:15:30.5+02:00'')) ''/work/Dockerfile'' True))
     = Some True
   \<and> map_option fst (returned (shouldRebuild ParseRFC3339Nano FormatRFC3339Nano
       (statFile \<lparr>t_sec = 63670353330, t_nsec = 500000000, t_offset = 7200\<rparr>)
       (sampleConf None) ''/work/Dockerfile'' False))
     = Some True"
proof -
  let ?stored = "''2018-08-20T11:15:30.5+02:00''"
  have stat: "statFile t path = Inr \<lparr>ModTime = t\<rparr>" for t path
    by (simp add: statFile_def)
  have conf: "LatestTimestamp (Build (sampleConf ts)) = ts" for ts
    by (simp add: sampleConf_def)
  note unforced = shouldRebuild_existing_file [OF stat, THEN conjunct2, rule_format,
      where buildFlagChanged = False and Parse = ParseRFC3339Nano and stored = ?stored
        and imageConf = "sampleConf (Some ?stored)"]
  note forced = shouldRebuild_existing_file [OF stat, THEN conjunct1, rule_format]
  show ?thesis
    by (simp add: unforced forced conf parse_sample)
qed

text \<open>
  C4, as the code has it: a call that returns has overwritten the stored timestamp with
  the rendering of \<open>dockerfileModTime\<close>. For a Dockerfile that exists this is the
  current modification time of the file, whether the decision is to rebuild or to skip.
  For a missing Dockerfile with a stored timestamp the call returns false and the stored
  timestamp becomes the rendering of the zero time: no modification time was read.
\<close>

theorem shouldRebuild_stores_timestamp:
  "(Stat dockerfilePath = Inr info \<longrightarrow>
      storedTimestamp (shouldRebuild Parse Format Stat imageConf dockerfilePath buildFlagChanged)
        = Some (Format (ModTime info)))
   \<and> (Stat dockerfilePath = Inl err \<and> LatestTimestamp (Build imageConf) = Some stored \<longrightarrow>
      shouldRebuild Parse Format Stat imageConf dockerfilePath buildFlagChanged
        = Returned (False,
            imageConf\<lparr>Build := (Build imageConf)\<lparr>LatestTimestamp := Some (Format zeroTime)\<rparr>\<rparr>))"
  by (auto simp: shouldRebuild_def storedTimestamp_def returned_def Let_def split: option.splits)

lemma format_sample:
  "FormatRFC3339Nano \<lparr>t_sec = 63670353330, t_nsec = 500000001, t_offset = 7200\<rparr>
     = ''2018-08-20T11:15:30.500000001+02:00''"
  by code_simp

lemma format_zeroTime: "FormatRFC3339Nano zeroTime = ''0001-01-01T00:00:00Z''"
  by code_simp

theorem shouldRebuild_stores_timestamp_witness:
  "storedTimestamp (shouldRebuild ParseRFC3339Nano FormatRFC3339Nano
       (statFile \<lparr>t_sec = 63670353330, t_nsec = 500000001, t_offset = 7200\<rparr>)
       (sampleConf (Some ''2018-08-20T11:15:30.5+02:00'')) ''/work/Dockerfile'' False)
     = Some ''2018-08-20T11:15:30.500000001+02:00''
   \<and> shouldRebuild ParseRFC3339Nano FormatRFC3339Nano statMissing
       (sampleConf (Some ''2018-08-20T11:15:30.5+02:00'')) ''/work/Dockerfile'' False
     = Returned (False, sampleConf (Some ''0001-01-01T00:00:00Z''))"
proof -
  have stat: "statFile t path = Inr \<lparr>ModTime = t\<rparr>" for t path
    by (simp add: statFile_def)
  have missing: "statMissing path = Inl (PathError ''stat'' path ''no such file or directory'')"
    for path
    by (simp add: statMissing_def)
  have conf: "LatestTimestamp (Build (sampleConf (Some ts))) = Some ts" for ts
    by (simp add: sampleConf_def)
  have upd: "(sampleConf a)\<lparr>Build := (Build (sampleConf a))\<lparr>LatestTimestamp := Some b\<rparr>\<rparr>
      = sampleConf (Some b)" for a b
    by (simp add: sampleConf_def)
  note existing = shouldRebuild_stores_timestamp [THEN conjunct1, rule_format, OF stat]
  note absent = shouldRebuild_stores_timestamp [THEN conjunct2, rule_format, OF conjI, OF missing conf]
  show ?thesis
    by (simp add: existing absent upd format_sample format_zeroTime)
qed

text \<open>
  The case that C4 names: the Dockerfile is missing, so it has no modification time, and
  a timestamp is stored. The call returns, and the stored timestamp it leaves is the
  rendering of the zero time.
\<close>

theorem shouldRebuild_missing_file_counterexample:
  "currentModTime (statMissing ''/work/Dockerfile'') = None
   \<and> storedTimestamp (shouldRebuild ParseRFC3339Nano FormatRFC3339Nano statMissing
         (sampleConf (Some ''2018-08-20T11:15:30.5+02:00'')) ''/work/Dockerfile'' False)
       = Some ''0001-01-01T00:00:00Z''
   \<and> storedTimestamp (shouldRebuild ParseRFC3339Nano FormatRFC3339Nano statMissing
         (sampleConf (Some ''2018-08-20T11:15:30.5+02:00'')) ''/work/Dockerfile'' False)
       \<noteq> map_option FormatRFC3339Nano (currentModTime (statMissing ''/work/Dockerfile''))"
  by (simp add: shouldRebuild_def storedTimestamp_def returned_def currentModTime_def
      statMissing_def sampleConf_def format_zeroTime)

section \<open>Properties of Run\<close>

text \<open>
  C2: in a run with building enabled in which \<open>buildImages\<close> returns, the running pod
  of the release is asked for first, and then: if an image was rebuilt or the deploy flag
  is set, \<open>deployChart\<close> is called; otherwise \<open>deployChart\<close> is called exactly when
  the search for a running pod returned an error, and when it returned none the pod it
  found becomes the session pod without a deploy.
\<close>

theorem Run_deploys_or_reuses:
  assumes "flags_build flags"
    and "buildImages buildFlagChanged = Returned rebuilt"
  shows "(rebuilt \<or> flags_deploy flags \<longrightarrow>
            fst (Run_sessionPod flags buildFlagChanged buildImages (pod, err) deployChart)
              = [CallBuildImages buildFlagChanged, CallGetRunningDevSpacePod, CallDeployChart])
       \<and> (\<not> rebuilt \<and> \<not> flags_deploy flags \<longrightarrow>
            fst (Run_sessionPod flags buildFlagChanged buildImages (pod, err) deployChart)
              = [CallBuildImages buildFlagChanged, CallGetRunningDevSpacePod]
                @ (if err \<noteq> None then [CallDeployChart] else [])
            \<and> (err = None \<longrightarrow>
                 snd (Run_sessionPod flags buildFlagChanged buildImages (pod, err) deployChart)
                   = Some (Returned pod)))
       \<and> (CallDeployChart
             \<in> set (fst (Run_sessionPod flags buildFlagChanged buildImages (pod, err) deployChart))
           \<and> deployChart = Some (Returned selected) \<longrightarrow>
             snd (Run_sessionPod flags buildFlagChanged buildImages (pod, err) deployChart)
               = Some (Returned (Some selected)))"
  using assms by (auto simp: Run_sessionPod_def Let_def)

theorem Run_deploys_or_reuses_witness:
  "Run_sessionPod (sampleFlags True False) False (\<lambda>_. Returned True) (Some readyPod, None)
       (Some (Returned startingPod))
     = ([CallBuildImages False, CallGetRunningDevSpacePod, CallDeployChart],
        Some (Returned (Some startingPod)))
   \<and> Run_sessionPod (sampleFlags True True) False (\<lambda>_. Returned False) (Some readyPod, None)
       (Some (Returned startingPod))
     = ([CallBuildImages False, CallGetRunningDevSpacePod, CallDeployChart],
        Some (Returned (Some startingPod)))
   \<and> Run_sessionPod (sampleFlags True False) False (\<lambda>_. Returned False) (Some readyPod, None)
       (Some (Returned startingPod))
     = ([CallBuildImages False, CallGetRunningDevSpacePod], Some (Returned (Some readyPod)))
   \<and> Run_sessionPod (sampleFlags True False) False (\<lambda>_. Returned False)
       (None, Some (ErrorString ''no running pod''))
       (Some (Returned startingPod))
     = ([CallBuildImages False, CallGetRunningDevSpacePod, CallDeployChart],
        Some (Returned (Some startingPod)))"
proof -
  have build: "flags_build (sampleFlags True d)" and deploy: "flags_deploy (sampleFlags b d) = d"
    for b d
    by (simp_all add: sampleFlags_def)
  note run = Run_deploys_or_reuses [where buildFlagChanged = False
      and deployChart = "Some (Returned startingPod)" and selected = startingPod]
  show ?thesis
    using
      run [where flags = "sampleFlags True False" and buildImages = "\<lambda>_. Returned True"
        and rebuilt = True and pod = "Some readyPod" and err = None]
      run [where flags = "sampleFlags True True" and buildImages = "\<lambda>_. Returned False"
        and rebuilt = False and pod = "Some readyPod" and err = None]
      run [where flags = "sampleFlags True False" and buildImages = "\<lambda>_. Returned False"
        and rebuilt = False and pod = "Some readyPod" and err = None]
      run [where flags = "sampleFlags True False" and buildImages = "\<lambda>_. Returned False"
        and rebuilt = False and pod = None and err = "Some (ErrorString ''no running pod'')"]
    by (simp add: build deploy prod_eq_iff)
qed

section \<open>Properties of startPortForwarding\<close>









section \<open>Properties of ExecBuffered\<close>

text \<open>
  C10: \<open>ExecBuffered\<close> returns a non-nil error exactly when the setup of the session
  fails, that is when \<open>GetClientConfig\<close> or the creation of the executor fails, and
  then the error is that of the setup. When the setup succeeds and the remote stream
  ends, it returns everything written to the two streams with a nil error, whatever error
  the stream ended with; the worker's send of that error on the nil channel delivers
  nothing.
\<close>

theorem ExecBuffered_error_only_from_setup:
  "(ExecBuffered cluster newExecutor isTerminalIn remote pod container command
        = Some (Returned (out, errOut, Some e))
      \<longleftrightarrow> out = [] \<and> errOut = []
          \<and> (GetClientConfig cluster = Inl e
               \<or> (\<exists>kubeconfig. GetClientConfig cluster = Inr kubeconfig
                    \<and> newExecutor kubeconfig
                          \<lparr>req_Name = Name pod, req_Namespace = Namespace pod,
                           req_Container = container, req_Command = command, req_TTY = False\<rparr>
                        = Some e)))
   \<and> (GetClientConfig cluster = Inr kubeconfig
        \<and> newExecutor kubeconfig
              \<lparr>req_Name = Name pod, req_Namespace = Namespace pod,
               req_Container = container, req_Command = command, req_TTY = False\<rparr> = None
      \<longrightarrow> ExecBuffered cluster newExecutor isTerminalIn (Some r) pod container command
            = Some (Returned (r_stdout r, r_stderr r, None))
          \<and> Exec cluster newExecutor isTerminalIn (Some r) pod container command False None
            = Some (ExecPipes \<lparr>stdoutPipe = Some (r_stdout r), stderrPipe = Some (r_stderr r),
                 delivered = None\<rparr>))"
  by (auto simp: ExecBuffered_def Exec_def sendOn_def Let_def split: sum.splits option.splits)

theorem ExecBuffered_error_only_from_setup_witness:
  "ExecBuffered (Some sampleCluster) (\<lambda>_ _. None) False
       (Some \<lparr>r_stdout = ''total 0'', r_stderr = ''warning'',
              r_err = Some (ErrorString ''connection reset by peer'')\<rparr>)
       readyPod ''app'' [''ls'', ''-l'']
     = Some (Returned (''total 0'', ''warning'', None))
   \<and> Exec (Some sampleCluster) (\<lambda>_ _. None) False
       (Some \<lparr>r_stdout = ''total 0'', r_stderr = ''warning'',
              r_err = Some (ErrorString ''connection reset by peer'')\<rparr>)
       readyPod ''app'' [''ls'', ''-l''] False None
     = Some (ExecPipes \<lparr>stdoutPipe = Some ''total 0'', stderrPipe = Some ''warning'',
          delivered = None\<rparr>)
   \<and> ExecBuffered None (\<lambda>_ _. None) False
       (Some \<lparr>r_stdout = ''total 0'', r_stderr = ''warning'', r_err = None\<rparr>)
       readyPod ''app'' [''ls'', ''-l'']
     = Some (Returned ([], [],
         Some (ErrorString ''Couldn't load cluster config, did you run devspace init'')))"
proof -
  have ok: "GetClientConfig (Some sampleCluster)
      = Inr \<lparr>Host = ''https://10.0.0.1:8443'', rc_Username = ''dev'', CAData = ''ca'',
             CertData = ''cert'', KeyData = ''key''\<rparr>"
    by (simp add: GetClientConfig_def sampleCluster_def)
  have missing: "GetClientConfig None
      = Inl (ErrorString ''Couldn't load cluster config, did you run devspace init'')"
    by (simp add: GetClientConfig_def)
  note streams = ExecBuffered_error_only_from_setup [THEN conjunct2, rule_format, OF conjI,
      OF ok, where newExecutor = "\<lambda>_ _. None", simplified]
  note failed = ExecBuffered_error_only_from_setup [THEN conjunct1, THEN iffD2, OF conjI,
      OF refl conjI, OF refl disjI1, OF missing]
  show ?thesis
    by (simp add: streams failed)
qed

end
